theory Spec2Isabelle
  imports Complex_Main
begin

section \<open>Values, errors and configuration\<close>

text \<open>
  The development follows \<^verbatim>\<open>npbrain/integration/integrator.py\<close>. Numbers are
  real numbers: rounding and overflow of the machine floats are outside the model. A
  state is a scalar, so the sample that \<^verbatim>\<open>np.random.normal\<close> draws in one call
  of a step function is one real number; it is passed to the step function as its first
  argument \<open>xi\<close>, so that two schemes can be compared on the same drawn noise.

  The one place where a step divides by a run-time value is the exponential Euler
  scheme. A NumPy division by zero gives an infinity or a NaN instead of raising; the
  result type \<open>npfloat\<close> has the extra value \<open>NonFinite\<close> for these.
\<close>

datatype error =
    ValueError string
  | TypeError
  | IndexError
  | KeyError
  | ZeroDivisionError
  | NotImplementedError
  | IntegratorError
  | AssertionError

datatype npfloat = Fin real | NonFinite

text \<open>What a user's drift function returns: a number, or a tuple of numbers.\<close>

datatype fval = FNum real | FTup "real list"

text \<open>What a step function returns: the new state, or a tuple led by the new state.\<close>

datatype pyval = Num npfloat | Tup "npfloat list"

type_synonym drift = "real \<Rightarrow> real \<Rightarrow> real list \<Rightarrow> fval"

datatype diffusion =
    Callable "real \<Rightarrow> real \<Rightarrow> real list \<Rightarrow> real"
  | Constant real
  | NoDiffusion

text \<open>
  The class \<^verbatim>\<open>DiffEquation\<close> is imported from a module that is not part of the
  sources at hand; the record holds the attributes that the numeric step builders read.
\<close>

record DiffEquation =
  f :: drift
  g :: diffusion
  is_multi_return :: bool

text \<open>
  Modelled from the spec: the attribute \<^verbatim>\<open>DiffEquation.is_stochastic\<close>, which the
  absent class computes; the spec describes it as "whether a diffusion term exists".
\<close>

definition is_stochastic :: "DiffEquation \<Rightarrow> bool" where
  "is_stochastic eq = (case g eq of NoDiffusion \<Rightarrow> False | _ \<Rightarrow> True)"

text \<open>
  The module \<^verbatim>\<open>profile\<close>: the step size, the switch of the ahead-of-time backend
  and the switch \<^verbatim>\<open>_merge_integral\<close>.
\<close>

record profile =
  get_dt :: real
  is_numba_bk :: bool
  merge_integral :: bool

type_synonym step_fun = "real \<Rightarrow> real \<Rightarrow> real \<Rightarrow> real list \<Rightarrow> error + pyval"

record Integrator =
  diff_eq :: DiffEquation
  update_code :: "string option"
  update_func :: step_fun

text \<open>
  A \<^verbatim>\<open>get_nb_step\<close> assembles text from symbolic expressions. It reads them
  through methods of \<^verbatim>\<open>DiffEquation\<close> and through SymPy, none of which is part of
  the sources at hand; these are parameters of the constructors, gathered in one record:
  \<^item> \<open>get_f_expressions\<close> is the method of that name, with its flag
    \<^verbatim>\<open>substitute\<close>, and \<open>get_g_expressions\<close> is the call
    \<^verbatim>\<open>diff_eq.get_g_expressions()\<close>;
  \<^item> \<open>replace_f_expressions\<close> is the method of that name, by its stage tag;
  \<^item> \<open>has_var\<close> is \<^verbatim>\<open>df_expr.has(var)\<close> and \<open>collect_linear\<close> is the entry for
    the state variable in \<^verbatim>\<open>sympy.collect(df_expr, var, evaluate=False)\<close>, both for
    the code of the last drift expression;
  \<^item> \<open>code_text\<close> is the text that the string formatting yields at the end.
  An expression is a pair of the name it assigns and its code.
\<close>

type_synonym expression = "string \<times> string"

record codegen =
  get_f_expressions :: "DiffEquation \<Rightarrow> bool \<Rightarrow> expression list"
  get_g_expressions :: "DiffEquation \<Rightarrow> expression list"
  replace_f_expressions :: "DiffEquation \<Rightarrow> string \<Rightarrow> expression list"
  has_var :: "string \<Rightarrow> bool"
  collect_linear :: "string \<Rightarrow> string option"
  code_text :: "DiffEquation \<Rightarrow> string"

section \<open>Python operations that can raise\<close>

definition bindE :: "error + 'a \<Rightarrow> ('a \<Rightarrow> error + 'b) \<Rightarrow> error + 'b" where
  "bindE r k = (case r of Inl e \<Rightarrow> Inl e | Inr v \<Rightarrow> k v)"

text \<open>\<^verbatim>\<open>val[0]\<close> and \<^verbatim>\<open>val[1]\<close>.\<close>

fun item0 :: "fval \<Rightarrow> error + real" where
  "item0 (FNum v) = Inl TypeError"
| "item0 (FTup []) = Inl IndexError"
| "item0 (FTup (a # rest)) = Inr a"

fun item1 :: "fval \<Rightarrow> error + real" where
  "item1 (FNum v) = Inl TypeError"
| "item1 (FTup []) = Inl IndexError"
| "item1 (FTup [a]) = Inl IndexError"
| "item1 (FTup (a # b # rest)) = Inr b"

text \<open>\<^verbatim>\<open>xs[-1]\<close> on a list.\<close>

definition last_item :: "'a list \<Rightarrow> error + 'a" where
  "last_item xs = (case xs of [] \<Rightarrow> Inl IndexError | x # rest \<Rightarrow> Inr (last xs))"

text \<open>\<^verbatim>\<open>tuple(val[n:])\<close>.\<close>

fun slice_from :: "nat \<Rightarrow> fval \<Rightarrow> error + real list" where
  "slice_from n (FNum v) = Inl TypeError"
| "slice_from n (FTup vs) = Inr (drop n vs)"

text \<open>The value of the drift function used as a number in arithmetic.\<close>

fun as_num :: "fval \<Rightarrow> error + real" where
  "as_num (FNum v) = Inr v"
| "as_num (FTup vs) = Inl TypeError"

text \<open>\<^verbatim>\<open>a, b = val\<close>.\<close>

fun unpack2 :: "fval \<Rightarrow> error + real \<times> real" where
  "unpack2 (FNum v) = Inl TypeError"
| "unpack2 (FTup [a, b]) = Inr (a, b)"
| "unpack2 (FTup vs) = Inl (ValueError ''wrong number of values to unpack'')"

text \<open>\<^verbatim>\<open>(y,) + rest\<close>, the auxiliary outputs being finite by their type.\<close>

definition cons_state :: "npfloat \<Rightarrow> real list \<Rightarrow> pyval" where
  "cons_state y rest = Tup (y # map Fin rest)"

text \<open>NumPy arithmetic where a non-finite operand may occur.\<close>

definition np_div :: "real \<Rightarrow> real \<Rightarrow> npfloat" where
  "np_div a b = (if b = 0 then NonFinite else Fin (a / b))"

fun np_mul :: "npfloat \<Rightarrow> npfloat \<Rightarrow> npfloat" where
  "np_mul (Fin a) (Fin b) = Fin (a * b)"
| "np_mul a b = NonFinite"

fun np_add :: "npfloat \<Rightarrow> npfloat \<Rightarrow> npfloat" where
  "np_add (Fin a) (Fin b) = Fin (a + b)"
| "np_add a b = NonFinite"

text \<open>A division of two Python floats.\<close>

definition py_div :: "real \<Rightarrow> real \<Rightarrow> error + real" where
  "py_div a b = (if b = 0 then Inl ZeroDivisionError else Inr (a / b))"

subsection \<open>Private names and keyword arguments\<close>

text \<open>
  An identifier that starts with two underscores and does not end with two, written
  inside a class body, is a private name: the compiler rewrites it to
  \<^verbatim>\<open>_Class__name\<close>. This holds for the parameters of a function defined in the
  class; the name of a keyword argument at a call site is passed as it is written, and
  a keyword that names no parameter of the callee raises \<^verbatim>\<open>TypeError\<close>.
\<close>

definition is_private :: "string \<Rightarrow> bool" where
  "is_private name = (take 2 name = ''__'' \<and> take 2 (rev name) \<noteq> ''__'')"

definition mangle :: "string \<Rightarrow> string \<Rightarrow> string" where
  "mangle cls name =
     (if is_private name then ''_'' @ dropWhile (\<lambda>c. c = CHR ''_'') cls @ name else name)"

datatype 'a argument = Positional 'a | Keyword string 'a

text \<open>Binding the one argument of a call to the one remaining parameter \<open>param\<close>.\<close>

fun bind_argument :: "string \<Rightarrow> 'a argument \<Rightarrow> error + 'a" where
  "bind_argument param (Positional v) = Inr v"
| "bind_argument param (Keyword k v) = (if k = param then Inr v else Inl TypeError)"

section \<open>The registry\<close>

datatype scheme =
    Euler | MidPoint | Heun | RK2 | RK3 | RK4 | RK4Alternative
  | ExponentialEuler | MilsteinIto | MilsteinStra

text \<open>\<^verbatim>\<open>str.lower\<close> on a string of ASCII characters.\<close>

definition lower_char :: "char \<Rightarrow> char" where
  "lower_char c =
     (let n = (of_char c :: nat) in if 65 \<le> n \<and> n \<le> 90 then char_of (n + 32) else c)"

definition lower :: "string \<Rightarrow> string" where
  "lower s = map lower_char s"

definition get_integrator :: "string \<Rightarrow> error + scheme" where
  "get_integrator name =
     (let method = lower name in
      if method = ''euler'' then Inr Euler
      else if method = ''midpoint'' then Inr MidPoint
      else if method = ''heun'' then Inr Heun
      else if method = ''rk2'' then Inr RK2
      else if method = ''rk3'' then Inr RK3
      else if method = ''rk4'' then Inr RK4
      else if method = ''rk4_alternative'' then Inr RK4Alternative
      else if method = ''exponential'' then Inr ExponentialEuler
      else if method = ''milstein'' then Inr MilsteinIto
      else if method = ''milstein_ito'' then Inr MilsteinIto
      else if method = ''milstein_stra'' then Inr MilsteinStra
      else Inl (ValueError (''Unknown method: '' @ method @ ''.'')))"

text \<open>The method names of the interface, and Python's \<^verbatim>\<open>sub in s\<close> on strings.\<close>

definition method_names :: "string list" where
  "method_names =
     [''euler'', ''midpoint'', ''heun'', ''rk2'', ''rk3'', ''rk4'', ''rk4_alternative'',
      ''exponential'', ''milstein'', ''milstein_ito'', ''milstein_stra'']"

fun contains :: "string \<Rightarrow> string \<Rightarrow> bool" where
  "contains sub [] = (sub = [])"
| "contains sub (c # cs) = (take (length sub) (c # cs) = sub \<or> contains sub cs)"

section \<open>The numeric step builders\<close>

text \<open>
  Each \<^verbatim>\<open>get_np_step\<close> reads the step size once and returns a closure. A closure
  takes the drawn sample \<open>xi\<close>, the state \<open>y0\<close>, the time \<open>t\<close> and the extra
  arguments, and returns the new state, or a tuple for a multi-return equation.
\<close>

subsection \<open>Euler\<close>

definition Euler_get_np_step :: "profile \<Rightarrow> DiffEquation \<Rightarrow> error + step_fun" where
  "Euler_get_np_step cfg eq =
     (let ff = f eq; dt = get_dt cfg in
      if is_stochastic eq then
        (let dt_sqrt = sqrt dt in
         case g eq of
           Callable gg \<Rightarrow>
             if is_multi_return eq then
               Inr (\<lambda>xi y0 t args.
                 let dW = xi; val = ff y0 t args in
                 bindE (item0 val) (\<lambda>v0.
                 let df = v0 * dt;
                     dg = dt_sqrt * gg y0 t args * dW;
                     y = y0 + df + dg in
                 bindE (slice_from 1 val) (\<lambda>rest. Inr (cons_state (Fin y) rest))))
             else
               Inr (\<lambda>xi y0 t args.
                 let dW = xi in
                 bindE (as_num (ff y0 t args)) (\<lambda>v.
                 let df = v * dt;
                     dg = dt_sqrt * gg y0 t args * dW in
                 Inr (Num (Fin (y0 + df + dg)))))
         | Constant gc \<Rightarrow>
             if is_multi_return eq then
               Inr (\<lambda>xi y0 t args.
                 let val = ff y0 t args in
                 bindE (item0 val) (\<lambda>v0.
                 let df = v0 * dt;
                     dW = xi;
                     dg = dt_sqrt * gc * dW;
                     y = y0 + df + dg in
                 bindE (slice_from 1 val) (\<lambda>rest. Inr (cons_state (Fin y) rest))))
             else
               Inr (\<lambda>xi y0 t args.
                 bindE (as_num (ff y0 t args)) (\<lambda>v.
                 let df = v * dt;
                     dW = xi;
                     dg = dt_sqrt * gc * dW in
                 Inr (Num (Fin (y0 + df + dg)))))
         | NoDiffusion \<Rightarrow> Inl AssertionError)
      else if is_multi_return eq then
        Inr (\<lambda>xi y0 t args.
          let val = ff y0 t args in
          bindE (item0 val) (\<lambda>v0.
          let y = y0 + dt * v0 in
          bindE (slice_from 1 val) (\<lambda>rest. Inr (cons_state (Fin y) rest))))
      else
        Inr (\<lambda>xi y0 t args.
          bindE (as_num (ff y0 t args)) (\<lambda>v. Inr (Num (Fin (y0 + dt * v))))))"

subsection \<open>RK2, Heun and MidPoint\<close>

text \<open>
  \<^verbatim>\<open>RK2.get_np_step(diff_eqs, __beta)\<close> is defined inside \<^verbatim>\<open>class RK2\<close>, so its
  second parameter is a private name. The model takes the second argument the way the
  caller passes it.
\<close>

definition RK2_get_np_step ::
    "profile \<Rightarrow> DiffEquation \<Rightarrow> real argument \<Rightarrow> error + step_fun" where
  "RK2_get_np_step cfg eq arg =
     bindE (bind_argument (mangle ''RK2'' ''__beta'') arg) (\<lambda>beta.
     let ff = f eq; dt = get_dt cfg in
     if is_stochastic eq then Inl NotImplementedError
     else if is_multi_return eq then
       Inr (\<lambda>xi y0 t args.
         let val = ff y0 t args in
         bindE (item0 val) (\<lambda>k1.
         let v = ff (y0 + beta * dt * k1) (t + beta * dt) args in
         bindE (item0 v) (\<lambda>k2.
         bindE (py_div 1 (2 * beta)) (\<lambda>c.
         let y = y0 + dt * ((1 - c) * k1 + c * k2) in
         bindE (slice_from 1 val) (\<lambda>rest. Inr (cons_state (Fin y) rest))))))
     else
       Inr (\<lambda>xi y0 t args.
         bindE (as_num (ff y0 t args)) (\<lambda>k1.
         bindE (as_num (ff (y0 + beta * dt * k1) (t + beta * dt) args)) (\<lambda>k2.
         bindE (py_div 1 (2 * beta)) (\<lambda>c.
         let y = y0 + dt * ((1 - c) * k1 + c * k2) in
         Inr (Num (Fin y)))))))"

text \<open>
  \<^verbatim>\<open>RK2.get_nb_step\<close> reads \<^verbatim>\<open>k1_expressions[-1]\<close>, computes
  \<^verbatim>\<open>1 / (2 * beta)\<close> when there are expressions of the second stage, and only then
  tests whether the equation is stochastic.
\<close>

definition RK2_get_nb_step :: "codegen \<Rightarrow> DiffEquation \<Rightarrow> real \<Rightarrow> error + string" where
  "RK2_get_nb_step gen eq beta =
     bindE (last_item (get_f_expressions gen eq False)) (\<lambda>k1_last.
     let k2_expressions = replace_f_expressions gen eq ''k2'' in
     bindE (if k2_expressions \<noteq> []
            then bindE (py_div 1 (2 * beta)) (\<lambda>coefficient2. Inr ())
            else Inr ()) (\<lambda>u.
     if is_stochastic eq then Inl NotImplementedError else Inr (code_text gen eq)))"

definition RK2_init ::
    "codegen \<Rightarrow> profile \<Rightarrow> DiffEquation \<Rightarrow> real \<Rightarrow> error + Integrator" where
  "RK2_init gen cfg eq beta =
     bindE (if is_numba_bk cfg
            then bindE (RK2_get_nb_step gen eq beta) (\<lambda>code. Inr (Some code))
            else Inr None) (\<lambda>code.
     bindE (RK2_get_np_step cfg eq (Keyword ''__beta'' beta)) (\<lambda>step.
     Inr \<lparr>diff_eq = eq, update_code = code, update_func = step\<rparr>))"

definition Heun_get_np_step :: "profile \<Rightarrow> DiffEquation \<Rightarrow> error + step_fun" where
  "Heun_get_np_step cfg eq =
     (let dt = get_dt cfg; ff = f eq in
      if is_stochastic eq then
        (let dt_sqrt = sqrt dt in
         case g eq of
           Callable gg \<Rightarrow>
             if is_multi_return eq then
               Inr (\<lambda>xi y0 t args.
                 let dW = xi; val = ff y0 t args in
                 bindE (item0 val) (\<lambda>v0.
                 let df = v0 * dt;
                     gn = gg y0 t args;
                     y_bar = y0 + gn * dW * dt_sqrt;
                     gn_bar = gg y_bar t args;
                     dg = 0.5 * (gn + gn_bar) * dW * dt_sqrt;
                     y1 = y0 + df + dg in
                 bindE (slice_from 1 val) (\<lambda>rest. Inr (cons_state (Fin y1) rest))))
             else
               Inr (\<lambda>xi y0 t args.
                 let dW = xi in
                 bindE (as_num (ff y0 t args)) (\<lambda>v.
                 let df = v * dt;
                     gn = gg y0 t args;
                     y_bar = y0 + gn * dW * dt_sqrt;
                     gn_bar = gg y_bar t args;
                     dg = 0.5 * (gn + gn_bar) * dW * dt_sqrt;
                     y1 = y0 + df + dg in
                 Inr (Num (Fin y1))))
         | _ \<Rightarrow> Euler_get_np_step cfg eq)
      else RK2_get_np_step cfg eq (Keyword ''__beta'' 1))"

definition MidPoint_get_nb_step :: "codegen \<Rightarrow> DiffEquation \<Rightarrow> error + string" where
  "MidPoint_get_nb_step gen eq =
     (if is_stochastic eq then Inl NotImplementedError else RK2_get_nb_step gen eq 0.5)"

definition MidPoint_get_np_step :: "profile \<Rightarrow> DiffEquation \<Rightarrow> error + step_fun" where
  "MidPoint_get_np_step cfg eq = RK2_get_np_step cfg eq (Keyword ''__beta'' 0.5)"

definition MidPoint_init :: "codegen \<Rightarrow> profile \<Rightarrow> DiffEquation \<Rightarrow> error + Integrator" where
  "MidPoint_init gen cfg eq =
     bindE (if is_numba_bk cfg
            then bindE (MidPoint_get_nb_step gen eq) (\<lambda>code. Inr (Some code))
            else Inr None) (\<lambda>code.
     bindE (MidPoint_get_np_step cfg eq) (\<lambda>step.
     Inr \<lparr>diff_eq = eq, update_code = code, update_func = step\<rparr>))"

subsection \<open>RK3, RK4 and RK4Alternative\<close>

text \<open>
  Each \<^verbatim>\<open>get_nb_step\<close> of these schemes reads \<^verbatim>\<open>k1_expressions[-1]\<close>, then,
  when there are expressions of the second stage, the last expression of each later
  stage, and only then tests whether the equation is stochastic.
\<close>

definition RK3_get_np_step :: "profile \<Rightarrow> DiffEquation \<Rightarrow> error + step_fun" where
  "RK3_get_np_step cfg eq =
     (let ff = f eq; dt = get_dt cfg in
      if is_stochastic eq then Inl NotImplementedError
      else if is_multi_return eq then
        Inr (\<lambda>xi y0 t args.
          let val = ff y0 t args in
          bindE (item0 val) (\<lambda>k1.
          bindE (item0 (ff (y0 + dt / 2 * k1) (t + dt / 2) args)) (\<lambda>k2.
          bindE (item0 (ff (y0 - dt * k1 + 2 * dt * k2) (t + dt) args)) (\<lambda>k3.
          let y = y0 + dt / 6 * (k1 + 4 * k2 + k3) in
          bindE (slice_from 1 val) (\<lambda>rest. Inr (cons_state (Fin y) rest))))))
      else
        Inr (\<lambda>xi y0 t args.
          bindE (as_num (ff y0 t args)) (\<lambda>k1.
          bindE (as_num (ff (y0 + dt / 2 * k1) (t + dt / 2) args)) (\<lambda>k2.
          bindE (as_num (ff (y0 - dt * k1 + 2 * dt * k2) (t + dt) args)) (\<lambda>k3.
          Inr (Num (Fin (y0 + dt / 6 * (k1 + 4 * k2 + k3)))))))))"

definition RK3_get_nb_step :: "codegen \<Rightarrow> DiffEquation \<Rightarrow> error + string" where
  "RK3_get_nb_step gen eq =
     bindE (last_item (get_f_expressions gen eq False)) (\<lambda>k1_last.
     let k2_expressions = replace_f_expressions gen eq ''k2'' in
     bindE (if k2_expressions \<noteq> []
            then bindE (last_item (replace_f_expressions gen eq ''k3'')) (\<lambda>k3_last. Inr ())
            else Inr ()) (\<lambda>u.
     if is_stochastic eq then Inl NotImplementedError else Inr (code_text gen eq)))"

definition RK3_init :: "codegen \<Rightarrow> profile \<Rightarrow> DiffEquation \<Rightarrow> error + Integrator" where
  "RK3_init gen cfg eq =
     bindE (if is_numba_bk cfg
            then bindE (RK3_get_nb_step gen eq) (\<lambda>code. Inr (Some code))
            else Inr None) (\<lambda>code.
     bindE (RK3_get_np_step cfg eq) (\<lambda>step.
     Inr \<lparr>diff_eq = eq, update_code = code, update_func = step\<rparr>))"

definition RK4_get_np_step :: "profile \<Rightarrow> DiffEquation \<Rightarrow> error + step_fun" where
  "RK4_get_np_step cfg eq =
     (let ff = f eq; dt = get_dt cfg in
      if is_stochastic eq then Inl NotImplementedError
      else if is_multi_return eq then
        Inr (\<lambda>xi y0 t args.
          let val = ff y0 t args in
          bindE (item0 val) (\<lambda>k1.
          bindE (item0 (ff (y0 + dt / 2 * k1) (t + dt / 2) args)) (\<lambda>k2.
          bindE (item0 (ff (y0 + dt / 2 * k2) (t + dt / 2) args)) (\<lambda>k3.
          bindE (item0 (ff (y0 + dt * k3) (t + dt) args)) (\<lambda>k4.
          let y = y0 + dt / 6 * (k1 + 2 * k2 + 2 * k3 + k4) in
          bindE (slice_from 1 val) (\<lambda>rest. Inr (cons_state (Fin y) rest)))))))
      else
        Inr (\<lambda>xi y0 t args.
          bindE (as_num (ff y0 t args)) (\<lambda>k1.
          bindE (as_num (ff (y0 + dt / 2 * k1) (t + dt / 2) args)) (\<lambda>k2.
          bindE (as_num (ff (y0 + dt / 2 * k2) (t + dt / 2) args)) (\<lambda>k3.
          bindE (as_num (ff (y0 + dt * k3) (t + dt) args)) (\<lambda>k4.
          Inr (Num (Fin (y0 + dt / 6 * (k1 + 2 * k2 + 2 * k3 + k4))))))))))"

definition RK4_get_nb_step :: "codegen \<Rightarrow> DiffEquation \<Rightarrow> error + string" where
  "RK4_get_nb_step gen eq =
     bindE (last_item (get_f_expressions gen eq False)) (\<lambda>k1_last.
     let k2_expressions = replace_f_expressions gen eq ''k2'' in
     bindE (if k2_expressions \<noteq> []
            then bindE (last_item (replace_f_expressions gen eq ''k3'')) (\<lambda>k3_last.
                 bindE (last_item (replace_f_expressions gen eq ''k4'')) (\<lambda>k4_last. Inr ()))
            else Inr ()) (\<lambda>u.
     if is_stochastic eq then Inl NotImplementedError else Inr (code_text gen eq)))"

definition RK4_init :: "codegen \<Rightarrow> profile \<Rightarrow> DiffEquation \<Rightarrow> error + Integrator" where
  "RK4_init gen cfg eq =
     bindE (if is_numba_bk cfg
            then bindE (RK4_get_nb_step gen eq) (\<lambda>code. Inr (Some code))
            else Inr None) (\<lambda>code.
     bindE (RK4_get_np_step cfg eq) (\<lambda>step.
     Inr \<lparr>diff_eq = eq, update_code = code, update_func = step\<rparr>))"

definition RK4Alternative_get_np_step :: "profile \<Rightarrow> DiffEquation \<Rightarrow> error + step_fun" where
  "RK4Alternative_get_np_step cfg eq =
     (let ff = f eq; dt = get_dt cfg in
      if is_stochastic eq then Inl IntegratorError
      else if is_multi_return eq then
        Inr (\<lambda>xi y0 t args.
          let val = ff y0 t args in
          bindE (item0 val) (\<lambda>k1.
          bindE (item0 (ff (y0 + dt / 3 * k1) (t + dt / 3) args)) (\<lambda>k2.
          bindE (item0 (ff (y0 - dt / 3 * k1 + dt * k2) (t + 2 * dt / 3) args)) (\<lambda>k3.
          bindE (item0 (ff (y0 + dt * k1 - dt * k2 + dt * k3) (t + dt) args)) (\<lambda>k4.
          let y = y0 + dt / 8 * (k1 + 3 * k2 + 3 * k3 + k4) in
          bindE (slice_from 1 val) (\<lambda>rest. Inr (cons_state (Fin y) rest)))))))
      else
        Inr (\<lambda>xi y0 t args.
          bindE (as_num (ff y0 t args)) (\<lambda>k1.
          bindE (as_num (ff (y0 + dt / 3 * k1) (t + dt / 3) args)) (\<lambda>k2.
          bindE (as_num (ff (y0 - dt / 3 * k1 + dt * k2) (t + 2 * dt / 3) args)) (\<lambda>k3.
          bindE (as_num (ff (y0 + dt * k1 - dt * k2 + dt * k3) (t + dt) args)) (\<lambda>k4.
          Inr (Num (Fin (y0 + dt / 8 * (k1 + 3 * k2 + 3 * k3 + k4))))))))))"

definition RK4Alternative_get_nb_step :: "codegen \<Rightarrow> DiffEquation \<Rightarrow> error + string" where
  "RK4Alternative_get_nb_step gen eq =
     bindE (last_item (get_f_expressions gen eq False)) (\<lambda>k1_last.
     let k2_expressions = replace_f_expressions gen eq ''k2'' in
     bindE (if k2_expressions \<noteq> []
            then bindE (last_item (replace_f_expressions gen eq ''k3'')) (\<lambda>k3_last.
                 bindE (last_item (replace_f_expressions gen eq ''k4'')) (\<lambda>k4_last. Inr ()))
            else Inr ()) (\<lambda>u.
     if is_stochastic eq then Inl NotImplementedError else Inr (code_text gen eq)))"

definition RK4Alternative_init :: "codegen \<Rightarrow> profile \<Rightarrow> DiffEquation \<Rightarrow> error + Integrator" where
  "RK4Alternative_init gen cfg eq =
     bindE (if is_numba_bk cfg
            then bindE (RK4Alternative_get_nb_step gen eq) (\<lambda>code. Inr (Some code))
            else Inr None) (\<lambda>code.
     bindE (RK4Alternative_get_np_step cfg eq) (\<lambda>step.
     Inr \<lparr>diff_eq = eq, update_code = code, update_func = step\<rparr>))"

subsection \<open>ExponentialEuler\<close>

text \<open>
  The update \<^verbatim>\<open>y0 + (exp - 1) / linear_part * dydt + exp * dg\<close>. The quotient is a
  NumPy division, since \<^verbatim>\<open>np.exp\<close> returns a NumPy number.
\<close>

definition exp_euler_update :: "real \<Rightarrow> real \<Rightarrow> real \<Rightarrow> real \<Rightarrow> real \<Rightarrow> npfloat" where
  "exp_euler_update dt y0 dydt linear_part dg =
     (let ex = exp (linear_part * dt) in
      np_add (np_add (Fin y0) (np_mul (np_div (ex - 1) linear_part) (Fin dydt)))
             (Fin (ex * dg)))"

definition ExponentialEuler_get_np_step ::
    "profile \<Rightarrow> DiffEquation \<Rightarrow> error + step_fun" where
  "ExponentialEuler_get_np_step cfg eq =
     (let ff = f eq; dt = get_dt cfg in
      if is_stochastic eq then
        (let dt_sqrt = sqrt dt in
         case g eq of
           Callable gg \<Rightarrow>
             if is_multi_return eq then
               Inr (\<lambda>xi y0 t args.
                 let val = ff y0 t args in
                 bindE (item0 val) (\<lambda>dydt.
                 bindE (item1 val) (\<lambda>linear_part.
                 let dW = xi;
                     dg = dt_sqrt * gg y0 t args * dW;
                     y1 = exp_euler_update dt y0 dydt linear_part dg in
                 bindE (slice_from 2 val) (\<lambda>rest. Inr (cons_state y1 rest)))))
             else
               Inr (\<lambda>xi y0 t args.
                 bindE (unpack2 (ff y0 t args)) (\<lambda>(dydt, linear_part).
                 let dW = xi;
                     dg = dt_sqrt * gg y0 t args * dW in
                 Inr (Num (exp_euler_update dt y0 dydt linear_part dg))))
         | Constant gc \<Rightarrow>
             if is_multi_return eq then
               Inr (\<lambda>xi y0 t args.
                 let val = ff y0 t args in
                 bindE (item0 val) (\<lambda>dydt.
                 bindE (item1 val) (\<lambda>linear_part.
                 let dW = xi;
                     dg = dt_sqrt * gc * dW;
                     y1 = exp_euler_update dt y0 dydt linear_part dg in
                 bindE (slice_from 1 val) (\<lambda>rest. Inr (cons_state y1 rest)))))
             else
               Inr (\<lambda>xi y0 t args.
                 bindE (unpack2 (ff y0 t args)) (\<lambda>(dydt, linear_part).
                 let dW = xi;
                     dg = dt_sqrt * gc * dW in
                 Inr (Num (exp_euler_update dt y0 dydt linear_part dg))))
         | NoDiffusion \<Rightarrow> Inl AssertionError)
      else if is_multi_return eq then
        Inr (\<lambda>xi y0 t args.
          let val = ff y0 t args in
          bindE (item0 val) (\<lambda>df.
          bindE (item1 val) (\<lambda>linear_part.
          let y = np_add (Fin y0)
                    (np_mul (np_div (exp (linear_part * dt) - 1) linear_part) (Fin df)) in
          bindE (slice_from 2 val) (\<lambda>rest. Inr (cons_state y rest)))))
      else
        Inr (\<lambda>xi y0 t args.
          bindE (unpack2 (ff y0 t args)) (\<lambda>(df, linear_part).
          let y = np_add (Fin y0)
                    (np_mul (np_div (exp (linear_part * dt) - 1) linear_part) (Fin df)) in
          Inr (Num y))))"

text \<open>
  \<^verbatim>\<open>ExponentialEuler.get_nb_step\<close> has no \<^verbatim>\<open>raise\<close> of its own, and three
  lookups that can fail: \<^verbatim>\<open>f_expressions[-1]\<close>, the entry
  \<^verbatim>\<open>sympy.collect(df_expr, var, evaluate=False)[var]\<close> when the drift mentions the
  state variable, and \<^verbatim>\<open>g_expressions[-1]\<close> for a stochastic equation.
\<close>

definition ExponentialEuler_get_nb_step :: "codegen \<Rightarrow> DiffEquation \<Rightarrow> error + string" where
  "ExponentialEuler_get_nb_step gen eq =
     bindE (last_item (get_f_expressions gen eq True)) (\<lambda>f_res.
     bindE (if has_var gen (snd f_res)
            then (case collect_linear gen (snd f_res) of
                    None \<Rightarrow> Inl KeyError
                  | Some coefficient \<Rightarrow> Inr ())
            else Inr ()) (\<lambda>u.
     bindE (if is_stochastic eq
            then bindE (last_item (get_g_expressions gen eq)) (\<lambda>g_last. Inr ())
            else Inr ()) (\<lambda>u'.
     Inr (code_text gen eq))))"

definition ExponentialEuler_init ::
    "codegen \<Rightarrow> profile \<Rightarrow> DiffEquation \<Rightarrow> error + Integrator" where
  "ExponentialEuler_init gen cfg eq =
     bindE (if is_numba_bk cfg
            then bindE (ExponentialEuler_get_nb_step gen eq) (\<lambda>code. Inr (Some code))
            else Inr None) (\<lambda>code.
     if \<not> merge_integral cfg then Inl IntegratorError
     else
       bindE (ExponentialEuler_get_np_step cfg eq) (\<lambda>step.
       Inr \<lparr>diff_eq = eq, update_code = code, update_func = step\<rparr>))"

subsection \<open>MilsteinIto and MilsteinStra\<close>

definition MilsteinIto_get_np_step :: "profile \<Rightarrow> DiffEquation \<Rightarrow> error + step_fun" where
  "MilsteinIto_get_np_step cfg eq =
     (let dt = get_dt cfg; dt_sqrt = sqrt dt; ff = f eq in
      if is_stochastic eq then
        (case g eq of
           Callable gg \<Rightarrow>
             if is_multi_return eq then
               Inr (\<lambda>xi y0 t args.
                 let dW = xi; val = ff y0 t args in
                 bindE (item0 val) (\<lambda>v0.
                 let df = v0 * dt;
                     g_n = gg y0 t args;
                     dg = g_n * dW * dt_sqrt;
                     y_n_bar = y0 + df + g_n * dt_sqrt;
                     g_n_bar = gg y_n_bar t args;
                     y1 = y0 + df + dg
                          + 0.5 * (g_n_bar - g_n) * (dW * dW * dt_sqrt - dt_sqrt) in
                 bindE (slice_from 1 val) (\<lambda>rest. Inr (cons_state (Fin y1) rest))))
             else
               Inr (\<lambda>xi y0 t args.
                 let dW = xi in
                 bindE (as_num (ff y0 t args)) (\<lambda>v.
                 let df = v * dt;
                     g_n = gg y0 t args;
                     dg = g_n * dW * dt_sqrt;
                     y_n_bar = y0 + df + g_n * dt_sqrt;
                     g_n_bar = gg y_n_bar t args;
                     y1 = y0 + df + dg
                          + 0.5 * (g_n_bar - g_n) * (dW * dW * dt_sqrt - dt_sqrt) in
                 Inr (Num (Fin y1))))
         | _ \<Rightarrow> Euler_get_np_step cfg eq)
      else Euler_get_np_step cfg eq)"

definition MilsteinStra_get_np_step :: "profile \<Rightarrow> DiffEquation \<Rightarrow> error + step_fun" where
  "MilsteinStra_get_np_step cfg eq =
     (let dt = get_dt cfg; dt_sqrt = sqrt dt; ff = f eq in
      if is_stochastic eq then
        (case g eq of
           Callable gg \<Rightarrow>
             if is_multi_return eq then
               Inr (\<lambda>xi y0 t args.
                 let dW = xi; val = ff y0 t args in
                 bindE (item0 val) (\<lambda>v0.
                 let df = v0 * dt;
                     g_n = gg y0 t args;
                     dg = g_n * dW * dt_sqrt;
                     y_n_bar = y0 + df + g_n * dt_sqrt;
                     g_n_bar = gg y_n_bar t args;
                     extra_term = 0.5 * (g_n_bar - g_n) * (dW * dW * dt_sqrt);
                     y1 = y0 + df + dg + extra_term in
                 bindE (slice_from 1 val) (\<lambda>rest. Inr (cons_state (Fin y1) rest))))
             else
               Inr (\<lambda>xi y0 t args.
                 let dW = xi in
                 bindE (as_num (ff y0 t args)) (\<lambda>v.
                 let df = v * dt;
                     g_n = gg y0 t args;
                     dg = g_n * dW * dt_sqrt;
                     y_n_bar = y0 + df + g_n * dt_sqrt;
                     g_n_bar = gg y_n_bar t args;
                     extra_term = 0.5 * (g_n_bar - g_n) * (dW * dW * dt_sqrt);
                     y1 = y0 + df + dg + extra_term in
                 Inr (Num (Fin y1))))
         | _ \<Rightarrow> Euler_get_np_step cfg eq)
      else Euler_get_np_step cfg eq)"

section \<open>Calling a built step, and the shapes of a drift value\<close>

text \<open>
  Building a step function and calling it once; an error of either phase is the
  error of the whole.
\<close>

definition call ::
    "error + step_fun \<Rightarrow> real \<Rightarrow> real \<Rightarrow> real \<Rightarrow> real list \<Rightarrow> error + pyval" where
  "call built xi y0 t args = bindE built (\<lambda>step. step xi y0 t args)"

text \<open>Python's \<^verbatim>\<open>callable(g)\<close> on the diffusion attribute.\<close>

fun callable :: "diffusion \<Rightarrow> bool" where
  "callable (Callable gg) = True"
| "callable other = False"

text \<open>
  The drift value \<open>v\<close> carries the derivative \<open>d\<close> and the auxiliary outputs
  \<open>aux\<close>, in the shape that the equation's flag announces.
\<close>

definition drift_returns :: "DiffEquation \<Rightarrow> fval \<Rightarrow> real \<Rightarrow> real list \<Rightarrow> bool" where
  "drift_returns eq v d aux =
     (if is_multi_return eq then v = FTup (d # aux) else v = FNum d \<and> aux = [])"

text \<open>The new state \<open>y\<close> followed by \<open>aux\<close>, in the shape the flag announces.\<close>

definition state_with :: "DiffEquation \<Rightarrow> npfloat \<Rightarrow> real list \<Rightarrow> pyval" where
  "state_with eq y aux = (if is_multi_return eq then cons_state y aux else Num y)"

section \<open>The formulas of the specification, and sample equations\<close>

text \<open>
  The Heun step for functional noise as the specification words it: predict with drift
  and diffusion, then average the drift and the diffusion over both points.
\<close>

definition Heun_spec_step ::
    "real \<Rightarrow> (real \<Rightarrow> real \<Rightarrow> real list \<Rightarrow> real) \<Rightarrow> (real \<Rightarrow> real \<Rightarrow> real list \<Rightarrow> real)
      \<Rightarrow> real \<Rightarrow> real \<Rightarrow> real \<Rightarrow> real list \<Rightarrow> real" where
  "Heun_spec_step dt fd gd xi y0 t args =
     (let y_pred = y0 + fd y0 t args * dt + gd y0 t args * sqrt dt * xi in
      y0 + dt * (fd y0 t args + fd y_pred t args) / 2
         + sqrt dt * xi * (gd y0 t args + gd y_pred t args) / 2)"

text \<open>Exponential growth \<open>dy/dt = y\<close> with unit noise, and decay \<open>dy/dt = -y\<close>.\<close>

definition growth_drift :: "real \<Rightarrow> real \<Rightarrow> real list \<Rightarrow> real" where
  "growth_drift y t args = y"

definition unit_noise :: "real \<Rightarrow> real \<Rightarrow> real list \<Rightarrow> real" where
  "unit_noise y t args = 1"

definition growth_eq :: DiffEquation where
  "growth_eq =
     \<lparr>f = (\<lambda>y t args. FNum (growth_drift y t args)), g = Callable unit_noise,
      is_multi_return = False\<rparr>"

definition decay_eq :: DiffEquation where
  "decay_eq = \<lparr>f = (\<lambda>y t args. FNum (- y)), g = NoDiffusion, is_multi_return = False\<rparr>"

text \<open>
  A multi-return decay equation for the exponential scheme: the drift returns the
  derivative, the linear coefficient \<open>-1\<close> and one further output, the time.
\<close>

definition leaky_drift :: drift where
  "leaky_drift y t args = FTup [- y, - 1, t]"

definition leaky_const_eq :: DiffEquation where
  "leaky_const_eq = \<lparr>f = leaky_drift, g = Constant 1, is_multi_return = True\<rparr>"

definition leaky_fun_eq :: DiffEquation where
  "leaky_fun_eq = \<lparr>f = leaky_drift, g = Callable unit_noise, is_multi_return = True\<rparr>"

text \<open>The equation \<open>dy/dt = 1\<close>, whose linear coefficient is zero.\<close>

definition flat_eq :: DiffEquation where
  "flat_eq = \<lparr>f = (\<lambda>y t args. FTup [1, 0]), g = NoDiffusion, is_multi_return = False\<rparr>"

text \<open>Geometric Brownian motion \<open>dy = y dt + y dW\<close>.\<close>

definition linear_noise :: "real \<Rightarrow> real \<Rightarrow> real list \<Rightarrow> real" where
  "linear_noise y t args = y"

definition gbm_eq :: DiffEquation where
  "gbm_eq =
     \<lparr>f = (\<lambda>y t args. FNum (growth_drift y t args)), g = Callable linear_noise,
      is_multi_return = False\<rparr>"

definition quad_profile :: profile where
  "quad_profile = \<lparr>get_dt = 4, is_numba_bk = False, merge_integral = False\<rparr>"

definition unit_profile :: profile where
  "unit_profile = \<lparr>get_dt = 1, is_numba_bk = False, merge_integral = True\<rparr>"

definition unmerged_profile :: profile where
  "unmerged_profile = \<lparr>get_dt = 1, is_numba_bk = True, merge_integral = False\<rparr>"

text \<open>
  A generator with one drift and one diffusion expression and no expressions of later
  stages, and a generator that finds no expressions at all.
\<close>

definition blank_code :: codegen where
  "blank_code =
     \<lparr>get_f_expressions = (\<lambda>eq substitute. [(''_dfy_dt'', ''0'')]),
      get_g_expressions = (\<lambda>eq. [(''_dgy_dt'', ''1'')]),
      replace_f_expressions = (\<lambda>eq tag. []),
      has_var = (\<lambda>code. False),
      collect_linear = (\<lambda>code. None),
      code_text = (\<lambda>eq. [])\<rparr>"

definition no_expressions :: codegen where
  "no_expressions =
     \<lparr>get_f_expressions = (\<lambda>eq substitute. []),
      get_g_expressions = (\<lambda>eq. []),
      replace_f_expressions = (\<lambda>eq tag. []),
      has_var = (\<lambda>code. False),
      collect_linear = (\<lambda>code. None),
      code_text = (\<lambda>eq. [])\<rparr>"

definition fused_numba_profile :: profile where
  "fused_numba_profile = \<lparr>get_dt = 1, is_numba_bk = True, merge_integral = True\<rparr>"

text \<open>The equation \<open>dy = 1 dt + y dW\<close>: constant drift, noise linear in the state.\<close>

definition unit_drift :: "real \<Rightarrow> real \<Rightarrow> real list \<Rightarrow> real" where
  "unit_drift y t args = 1"

definition drifting_eq :: DiffEquation where
  "drifting_eq =
     \<lparr>f = (\<lambda>y t args. FNum (unit_drift y t args)), g = Callable linear_noise,
      is_multi_return = False\<rparr>"

text \<open>
  The equation \<open>dy/dt = -y\<^sup>2\<close>, and a generator for it: one drift expression, which
  mentions the state variable, and no entry for the state variable alone among the
  collected powers.
\<close>

definition quadratic_eq :: DiffEquation where
  "quadratic_eq =
     \<lparr>f = (\<lambda>y t args. FNum (- (y * y))), g = NoDiffusion, is_multi_return = False\<rparr>"

definition quadratic_code :: codegen where
  "quadratic_code =
     \<lparr>get_f_expressions = (\<lambda>eq substitute. [(''_dfy_dt'', ''-y**2'')]),
      get_g_expressions = (\<lambda>eq. []),
      replace_f_expressions = (\<lambda>eq tag. []),
      has_var = (\<lambda>code. True),
      collect_linear = (\<lambda>code. None),
      code_text = (\<lambda>eq. [])\<rparr>"

section \<open>Basic facts\<close>

lemma bindE_Inr [simp]: "bindE (Inr v) k = k v"
  by (simp add: bindE_def)

lemma bindE_Inl [simp]: "bindE (Inl e) k = Inl e"
  by (simp add: bindE_def)

lemma mangle_RK2_beta: "mangle ''RK2'' ''__beta'' = ''_RK2__beta''"
  by (simp add: mangle_def is_private_def)

lemma lower_idem: "lower (lower s) = lower s"
  by (simp add: lower_def lower_char_def Let_def)

lemma ExponentialEuler_builds: "\<exists>step. ExponentialEuler_get_np_step cfg eq = Inr step"
  by (cases "g eq") (simp_all add: ExponentialEuler_get_np_step_def is_stochastic_def Let_def)

lemma last_item_cases: "last_item xs = Inl IndexError \<or> (\<exists>x. last_item xs = Inr x)"
  by (cases xs) (simp_all add: last_item_def)

text \<open>On a stochastic equation every modelled code generator of a Runge-Kutta scheme raises.\<close>

lemma RK2_get_nb_step_stochastic:
  assumes "is_stochastic eq"
  shows "\<exists>e. RK2_get_nb_step gen eq beta = Inl e
           \<and> (e = NotImplementedError \<or> e = IndexError \<or> e = ZeroDivisionError)"
  using assms last_item_cases [of "get_f_expressions gen eq False"]
  by (auto simp add: RK2_get_nb_step_def py_div_def Let_def)

lemma RK3_get_nb_step_stochastic:
  assumes "is_stochastic eq"
  shows "\<exists>e. RK3_get_nb_step gen eq = Inl e \<and> (e = NotImplementedError \<or> e = IndexError)"
  using assms last_item_cases [of "get_f_expressions gen eq False"]
    last_item_cases [of "replace_f_expressions gen eq ''k3''"]
  by (auto simp add: RK3_get_nb_step_def Let_def)

lemma RK4_get_nb_step_stochastic:
  assumes "is_stochastic eq"
  shows "\<exists>e. RK4_get_nb_step gen eq = Inl e \<and> (e = NotImplementedError \<or> e = IndexError)"
  using assms last_item_cases [of "get_f_expressions gen eq False"]
    last_item_cases [of "replace_f_expressions gen eq ''k3''"]
    last_item_cases [of "replace_f_expressions gen eq ''k4''"]
  by (auto simp add: RK4_get_nb_step_def Let_def)

lemma RK4Alternative_get_nb_step_stochastic:
  assumes "is_stochastic eq"
  shows "\<exists>e. RK4Alternative_get_nb_step gen eq = Inl e
           \<and> (e = NotImplementedError \<or> e = IndexError)"
  using assms last_item_cases [of "get_f_expressions gen eq False"]
    last_item_cases [of "replace_f_expressions gen eq ''k3''"]
    last_item_cases [of "replace_f_expressions gen eq ''k4''"]
  by (auto simp add: RK4Alternative_get_nb_step_def Let_def)

section \<open>Construction\<close>

text \<open>
  C3. The constructor of ExponentialEuler runs the code generator first when the
  ahead-of-time backend is on, then tests the merged-integral switch, then builds the
  numeric closure. With the switch off it raises, for every equation. When the backend
  is off, or its code generator returns, the error with the switch off is
  \<^verbatim>\<open>IntegratorError\<close>, and with the switch on the constructor returns an integrator
  whose step function is the closure built by \<^verbatim>\<open>ExponentialEuler.get_np_step\<close>. An
  error of the code generator is the error of the constructor, whatever the switch.
\<close>

theorem ExponentialEuler_init_flag:
  "(\<not> merge_integral cfg \<longrightarrow> (\<exists>e. ExponentialEuler_init gen cfg eq = Inl e))
   \<and> ((is_numba_bk cfg \<longrightarrow> ExponentialEuler_get_nb_step gen eq = Inr code) \<longrightarrow>
        (\<not> merge_integral cfg \<longrightarrow> ExponentialEuler_init gen cfg eq = Inl IntegratorError)
        \<and> (merge_integral cfg \<longrightarrow>
             (\<exists>step. ExponentialEuler_get_np_step cfg eq = Inr step
                \<and> ExponentialEuler_init gen cfg eq =
                    Inr \<lparr>diff_eq = eq,
                         update_code = (if is_numba_bk cfg then Some code else None),
                         update_func = step\<rparr>)))
   \<and> (is_numba_bk cfg \<and> ExponentialEuler_get_nb_step gen eq = Inl e \<longrightarrow>
        ExponentialEuler_init gen cfg eq = Inl e)"
proof -
  obtain step where built: "ExponentialEuler_get_np_step cfg eq = Inr step"
    using ExponentialEuler_builds by blast
  have off: "\<not> merge_integral cfg \<longrightarrow> (\<exists>e. ExponentialEuler_init gen cfg eq = Inl e)"
    by (cases "ExponentialEuler_get_nb_step gen eq") (simp_all add: ExponentialEuler_init_def)
  have generated:
    "(is_numba_bk cfg \<longrightarrow> ExponentialEuler_get_nb_step gen eq = Inr code) \<longrightarrow>
        (\<not> merge_integral cfg \<longrightarrow> ExponentialEuler_init gen cfg eq = Inl IntegratorError)
        \<and> (merge_integral cfg \<longrightarrow>
             (\<exists>step. ExponentialEuler_get_np_step cfg eq = Inr step
                \<and> ExponentialEuler_init gen cfg eq =
                    Inr \<lparr>diff_eq = eq,
                         update_code = (if is_numba_bk cfg then Some code else None),
                         update_func = step\<rparr>))"
    by (simp add: ExponentialEuler_init_def built)
  have raised: "is_numba_bk cfg \<and> ExponentialEuler_get_nb_step gen eq = Inl e \<longrightarrow>
        ExponentialEuler_init gen cfg eq = Inl e"
    by (simp add: ExponentialEuler_init_def)
  show ?thesis
    using off generated raised by blast
qed

theorem ExponentialEuler_init_flag_witness:
  "\<not> merge_integral unmerged_profile
   \<and> is_numba_bk unmerged_profile
   \<and> ExponentialEuler_get_nb_step blank_code decay_eq = Inr []
   \<and> ExponentialEuler_init blank_code unmerged_profile decay_eq = Inl IntegratorError
   \<and> merge_integral unit_profile
   \<and> (\<exists>step. ExponentialEuler_init blank_code unit_profile decay_eq =
         Inr \<lparr>diff_eq = decay_eq, update_code = None, update_func = step\<rparr>)
   \<and> ExponentialEuler_get_nb_step no_expressions decay_eq = Inl IndexError
   \<and> ExponentialEuler_init no_expressions unmerged_profile decay_eq = Inl IndexError"
proof -
  have flags: "\<not> merge_integral unmerged_profile" "is_numba_bk unmerged_profile"
    "merge_integral unit_profile" "\<not> is_numba_bk unit_profile"
    by (simp_all add: unmerged_profile_def unit_profile_def)
  have det: "\<not> is_stochastic decay_eq"
    by (simp add: is_stochastic_def decay_eq_def)
  have ok: "ExponentialEuler_get_nb_step blank_code decay_eq = Inr []"
    using det by (simp add: ExponentialEuler_get_nb_step_def blank_code_def last_item_def)
  have bad: "ExponentialEuler_get_nb_step no_expressions decay_eq = Inl IndexError"
    by (simp add: ExponentialEuler_get_nb_step_def no_expressions_def last_item_def)
  show ?thesis
    using flags ok bad
      ExponentialEuler_init_flag [of unmerged_profile blank_code decay_eq "[]" IndexError]
      ExponentialEuler_init_flag [of unit_profile blank_code decay_eq "[]" IndexError]
      ExponentialEuler_init_flag [of unmerged_profile no_expressions decay_eq "[]" IndexError]
    by auto
qed

text \<open>
  With the switch on and the ahead-of-time backend on, construction does not succeed
  for every equation: \<^verbatim>\<open>f_expressions[-1]\<close> raises \<^verbatim>\<open>IndexError\<close> when no drift
  expression is found, and for \<open>dy/dt = -y\<^sup>2\<close> the lookup of the linear coefficient
  raises \<^verbatim>\<open>KeyError\<close>.
\<close>

theorem ExponentialEuler_init_counterexample:
  "merge_integral fused_numba_profile
   \<and> ExponentialEuler_init no_expressions fused_numba_profile growth_eq = Inl IndexError
   \<and> ExponentialEuler_init quadratic_code fused_numba_profile quadratic_eq = Inl KeyError"
  by (simp add: fused_numba_profile_def ExponentialEuler_init_def
      ExponentialEuler_get_nb_step_def no_expressions_def quadratic_code_def last_item_def)

text \<open>
  C4. On a stochastic equation, with the ahead-of-time backend off, the constructors of
  RK3 and RK4 raise \<^verbatim>\<open>NotImplementedError\<close> and the one of RK4Alternative raises
  \<^verbatim>\<open>IntegratorError\<close>, but the constructor of RK2 raises \<^verbatim>\<open>TypeError\<close>: its call
  \<^verbatim>\<open>self.get_np_step(diff_eq, __beta=beta)\<close> fails to bind the keyword to the
  private parameter, before the body can raise \<^verbatim>\<open>NotImplementedError\<close>. With the
  backend on, each constructor raises what its code generator raises:
  \<^verbatim>\<open>NotImplementedError\<close>, or the error of an earlier lookup or division.
\<close>

theorem RK_stochastic_construction:
  assumes st: "is_stochastic eq"
  shows
  "(\<not> is_numba_bk cfg \<longrightarrow>
      RK3_init gen cfg eq = Inl NotImplementedError
      \<and> RK4_init gen cfg eq = Inl NotImplementedError
      \<and> RK4Alternative_init gen cfg eq = Inl IntegratorError
      \<and> RK2_init gen cfg eq beta = Inl TypeError)
   \<and> (is_numba_bk cfg \<longrightarrow>
      (\<exists>e. RK3_get_nb_step gen eq = Inl e \<and> RK3_init gen cfg eq = Inl e
            \<and> (e = NotImplementedError \<or> e = IndexError))
      \<and> (\<exists>e. RK4_get_nb_step gen eq = Inl e \<and> RK4_init gen cfg eq = Inl e
            \<and> (e = NotImplementedError \<or> e = IndexError))
      \<and> (\<exists>e. RK4Alternative_get_nb_step gen eq = Inl e
            \<and> RK4Alternative_init gen cfg eq = Inl e
            \<and> (e = NotImplementedError \<or> e = IndexError))
      \<and> (\<exists>e. RK2_get_nb_step gen eq beta = Inl e \<and> RK2_init gen cfg eq beta = Inl e
            \<and> (e = NotImplementedError \<or> e = IndexError \<or> e = ZeroDivisionError)))"
proof -
  have off: "\<not> is_numba_bk cfg \<longrightarrow>
      RK3_init gen cfg eq = Inl NotImplementedError
      \<and> RK4_init gen cfg eq = Inl NotImplementedError
      \<and> RK4Alternative_init gen cfg eq = Inl IntegratorError
      \<and> RK2_init gen cfg eq beta = Inl TypeError"
    using st
    by (simp add: RK3_init_def RK3_get_np_step_def RK4_init_def RK4_get_np_step_def
        RK4Alternative_init_def RK4Alternative_get_np_step_def
        RK2_init_def RK2_get_np_step_def mangle_RK2_beta)
  have on3: "is_numba_bk cfg \<longrightarrow>
      (\<exists>e. RK3_get_nb_step gen eq = Inl e \<and> RK3_init gen cfg eq = Inl e
            \<and> (e = NotImplementedError \<or> e = IndexError))"
    using RK3_get_nb_step_stochastic [OF st, of gen]
    by (auto simp add: RK3_init_def)
  have on4: "is_numba_bk cfg \<longrightarrow>
      (\<exists>e. RK4_get_nb_step gen eq = Inl e \<and> RK4_init gen cfg eq = Inl e
            \<and> (e = NotImplementedError \<or> e = IndexError))"
    using RK4_get_nb_step_stochastic [OF st, of gen]
    by (auto simp add: RK4_init_def)
  have on4a: "is_numba_bk cfg \<longrightarrow>
      (\<exists>e. RK4Alternative_get_nb_step gen eq = Inl e
            \<and> RK4Alternative_init gen cfg eq = Inl e
            \<and> (e = NotImplementedError \<or> e = IndexError))"
    using RK4Alternative_get_nb_step_stochastic [OF st, of gen]
    by (auto simp add: RK4Alternative_init_def)
  have on2: "is_numba_bk cfg \<longrightarrow>
      (\<exists>e. RK2_get_nb_step gen eq beta = Inl e \<and> RK2_init gen cfg eq beta = Inl e
            \<and> (e = NotImplementedError \<or> e = IndexError \<or> e = ZeroDivisionError))"
    using RK2_get_nb_step_stochastic [OF st, of gen beta]
    by (auto simp add: RK2_init_def)
  show ?thesis
    using off on3 on4 on4a on2 by blast
qed

theorem RK_stochastic_construction_witness:
  "is_stochastic growth_eq
   \<and> \<not> is_numba_bk unit_profile
   \<and> RK3_init blank_code unit_profile growth_eq = Inl NotImplementedError
   \<and> RK4_init blank_code unit_profile growth_eq = Inl NotImplementedError
   \<and> RK4Alternative_init blank_code unit_profile growth_eq = Inl IntegratorError
   \<and> RK2_init blank_code unit_profile growth_eq (2 / 3) = Inl TypeError
   \<and> is_numba_bk fused_numba_profile
   \<and> (\<exists>e. RK3_init blank_code fused_numba_profile growth_eq = Inl e)
   \<and> (\<exists>e. RK2_init blank_code fused_numba_profile growth_eq (2 / 3) = Inl e)"
proof -
  have st: "is_stochastic growth_eq"
    by (simp add: is_stochastic_def growth_eq_def)
  have off: "\<not> is_numba_bk unit_profile" and on: "is_numba_bk fused_numba_profile"
    by (simp_all add: unit_profile_def fused_numba_profile_def)
  show ?thesis
    using st off on
      RK_stochastic_construction [OF st, of unit_profile blank_code "2 / 3"]
      RK_stochastic_construction [OF st, of fused_numba_profile blank_code "2 / 3"]
    by blast
qed

text \<open>
  C7. \<^verbatim>\<open>MidPoint.get_np_step\<close> calls \<^verbatim>\<open>RK2.get_np_step(diff_eqs, __beta=0.5)\<close>.
  The parameter of \<^verbatim>\<open>RK2.get_np_step\<close> is the private name \<^verbatim>\<open>_RK2__beta\<close>, so the
  call raises \<^verbatim>\<open>TypeError\<close> and MidPoint builds no step function, for any equation.
  Its constructor raises for every equation and every configuration, and the error is
  that \<^verbatim>\<open>TypeError\<close> whenever the ahead-of-time backend is off or its code generator
  returns. The positional call does build the RK2 step with weight one half.
\<close>

theorem MidPoint_never_builds:
  "MidPoint_get_np_step cfg eq = Inl TypeError
   \<and> (\<exists>e. MidPoint_init gen cfg eq = Inl e)
   \<and> (\<not> is_numba_bk cfg \<longrightarrow> MidPoint_init gen cfg eq = Inl TypeError)
   \<and> (MidPoint_get_nb_step gen eq = Inr code \<longrightarrow> MidPoint_init gen cfg eq = Inl TypeError)
   \<and> (\<not> is_stochastic eq \<longrightarrow>
        (\<exists>step. RK2_get_np_step cfg eq (Positional 0.5) = Inr step))"
proof -
  have np: "MidPoint_get_np_step cfg eq = Inl TypeError"
    by (simp add: MidPoint_get_np_step_def RK2_get_np_step_def mangle_RK2_beta)
  have fails: "\<exists>e. MidPoint_init gen cfg eq = Inl e"
    by (cases "MidPoint_get_nb_step gen eq") (simp_all add: MidPoint_init_def np)
  have off: "\<not> is_numba_bk cfg \<longrightarrow> MidPoint_init gen cfg eq = Inl TypeError"
    by (simp add: MidPoint_init_def np)
  have generated: "MidPoint_get_nb_step gen eq = Inr code \<longrightarrow>
      MidPoint_init gen cfg eq = Inl TypeError"
    by (simp add: MidPoint_init_def np)
  have positional: "\<not> is_stochastic eq \<longrightarrow>
      (\<exists>step. RK2_get_np_step cfg eq (Positional 0.5) = Inr step)"
    by (simp add: RK2_get_np_step_def Let_def)
  show ?thesis
    using np fails off generated positional by blast
qed

theorem MidPoint_never_builds_witness:
  "\<not> is_stochastic decay_eq
   \<and> \<not> is_numba_bk unit_profile
   \<and> MidPoint_get_np_step unit_profile decay_eq = Inl TypeError
   \<and> MidPoint_init blank_code unit_profile decay_eq = Inl TypeError
   \<and> MidPoint_get_nb_step blank_code decay_eq = Inr []
   \<and> MidPoint_init blank_code fused_numba_profile decay_eq = Inl TypeError
   \<and> (\<exists>step. RK2_get_np_step unit_profile decay_eq (Positional 0.5) = Inr step)"
proof -
  have det: "\<not> is_stochastic decay_eq"
    by (simp add: is_stochastic_def decay_eq_def)
  have off: "\<not> is_numba_bk unit_profile"
    by (simp add: unit_profile_def)
  have generated: "MidPoint_get_nb_step blank_code decay_eq = Inr []"
    using det
    by (simp add: MidPoint_get_nb_step_def RK2_get_nb_step_def blank_code_def last_item_def)
  show ?thesis
    using det off generated
      MidPoint_never_builds [of unit_profile decay_eq blank_code "[]"]
      MidPoint_never_builds [of fused_numba_profile decay_eq blank_code "[]"]
    by blast
qed

text \<open>
  What the positional call builds: with weight one half the first stage drops out, and
  the step is the explicit midpoint rule.
\<close>

lemma RK2_positional_midpoint:
  "\<not> is_stochastic eq \<Longrightarrow> \<not> is_multi_return eq \<Longrightarrow> f eq y0 t args = FNum k1 \<Longrightarrow>
   f eq (y0 + 0.5 * get_dt cfg * k1) (t + 0.5 * get_dt cfg) args = FNum k2 \<Longrightarrow>
   call (RK2_get_np_step cfg eq (Positional 0.5)) xi y0 t args
     = Inr (Num (Fin (y0 + get_dt cfg * k2)))"
  by (simp add: call_def RK2_get_np_step_def py_div_def Let_def)

section \<open>Euler and Heun\<close>

text \<open>
  C9. For a deterministic equation that is not multi-return and whose drift returns the
  number \<open>d\<close>, the Euler step returns \<open>y0 + dt * d\<close>; on \<open>dy/dt = -y\<close> with
  \<open>y0 = 1\<close>, \<open>t = 0\<close> and \<open>dt = 0.1\<close> it returns \<open>0.9\<close>.
\<close>

theorem Euler_ode_step:
  "(\<not> is_stochastic eq \<and> \<not> is_multi_return eq \<and> f eq y0 t args = FNum d \<longrightarrow>
      call (Euler_get_np_step cfg eq) xi y0 t args = Inr (Num (Fin (y0 + get_dt cfg * d))))
   \<and> call (Euler_get_np_step \<lparr>get_dt = 0.1, is_numba_bk = nb, merge_integral = mi\<rparr> decay_eq)
        xi 1 0 [] = Inr (Num (Fin 0.9))"
  by (simp add: call_def Euler_get_np_step_def decay_eq_def is_stochastic_def)

theorem Euler_ode_step_witness:
  "\<not> is_stochastic decay_eq \<and> \<not> is_multi_return decay_eq \<and> f decay_eq 2 0 [] = FNum (- 2)
   \<and> call (Euler_get_np_step unit_profile decay_eq) 0 2 0 [] = Inr (Num (Fin 0))"
  using Euler_ode_step [of decay_eq 2 0 "[]" "- 2" unit_profile 0]
  by (simp add: decay_eq_def is_stochastic_def unit_profile_def)

text \<open>
  C8. For a stochastic equation whose diffusion is not callable, the step function that
  Heun builds is the one that Euler builds, so both return the same value on the same
  sample, state, time and arguments.
\<close>

theorem Heun_constant_noise_is_Euler:
  "is_stochastic eq \<Longrightarrow> \<not> callable (g eq) \<Longrightarrow>
     Heun_get_np_step cfg eq = Euler_get_np_step cfg eq
     \<and> call (Heun_get_np_step cfg eq) xi y0 t args = call (Euler_get_np_step cfg eq) xi y0 t args"
  by (cases "g eq") (simp_all add: Heun_get_np_step_def is_stochastic_def)

theorem Heun_constant_noise_is_Euler_witness:
  "is_stochastic leaky_const_eq \<and> \<not> callable (g leaky_const_eq)
   \<and> Heun_get_np_step unit_profile leaky_const_eq = Euler_get_np_step unit_profile leaky_const_eq
   \<and> call (Heun_get_np_step unit_profile leaky_const_eq) (1 / 2) 1 0 []
       = Inr (Tup [Fin (1 / 2), Fin (- 1), Fin 0])"
proof -
  have st: "is_stochastic leaky_const_eq" and nc: "\<not> callable (g leaky_const_eq)"
    by (simp_all add: is_stochastic_def leaky_const_eq_def)
  have "call (Euler_get_np_step unit_profile leaky_const_eq) (1 / 2) 1 0 []
          = Inr (Tup [Fin (1 / 2), Fin (- 1), Fin 0])"
    by (simp add: call_def Euler_get_np_step_def is_stochastic_def leaky_const_eq_def
        leaky_drift_def unit_profile_def cons_state_def)
  then show ?thesis
    using st nc Heun_constant_noise_is_Euler [OF st nc, of unit_profile "1 / 2" 1 0 "[]"]
    by simp
qed

text \<open>
  What \<^verbatim>\<open>Heun.get_np_step\<close> computes for callable diffusion: the predictor is
  \<open>y_bar = y0 + g(y0) * xi * sqrt dt\<close>, and the new state is
  \<open>y0 + dt * f(y0) + (g(y0) + g(y_bar)) / 2 * xi * sqrt dt\<close>.
\<close>

lemma Heun_functional_noise_step:
  "g eq = Callable gg \<Longrightarrow> drift_returns eq (f eq y0 t args) d aux \<Longrightarrow>
   call (Heun_get_np_step cfg eq) xi y0 t args =
     Inr (state_with eq
           (Fin (let dt = get_dt cfg; gn = gg y0 t args;
                     y_bar = y0 + gn * xi * sqrt dt
                 in y0 + d * dt + (gn + gg y_bar t args) / 2 * xi * sqrt dt)) aux)"
  by (simp add: call_def Heun_get_np_step_def is_stochastic_def drift_returns_def
      state_with_def Let_def split: if_splits)

text \<open>
  C1. For callable diffusion the specification words the Heun step with the drift in
  the predictor and with the drift and the diffusion both averaged over \<open>y0\<close> and the
  predicted state; the class docstring gives this formula and
  \<^verbatim>\<open>Heun.get_nb_step\<close> generates it. The numeric step leaves the drift out of the
  predictor and takes the drift at \<open>y0\<close> only:
  \<^item> on \<open>dy = y dt + y dW\<close> with \<open>dt = 4\<close>, \<open>y0 = 1\<close> and the sample \<open>1\<close> it returns
    \<open>9\<close>, the worded formula gives \<open>25\<close>;
  \<^item> on \<open>dy = 1 dt + y dW\<close>, where averaging a constant drift changes nothing, it
    returns \<open>9\<close> and the worded formula gives \<open>13\<close>: the predictors differ;
  \<^item> on \<open>dy = y dt + 1 dW\<close> with \<open>dt = 1\<close> and the sample \<open>0\<close>, where the predictor
    cannot matter to the diffusion, it returns \<open>2\<close> and the worded formula gives
    \<open>5/2\<close>: the drift is not averaged.
\<close>

theorem Heun_np_step_against_spec:
  "call (Heun_get_np_step quad_profile gbm_eq) 1 1 0 [] = Inr (Num (Fin 9))
   \<and> Heun_spec_step (get_dt quad_profile) growth_drift linear_noise 1 1 0 [] = 25
   \<and> call (Heun_get_np_step quad_profile drifting_eq) 1 1 0 [] = Inr (Num (Fin 9))
   \<and> Heun_spec_step (get_dt quad_profile) unit_drift linear_noise 1 1 0 [] = 13
   \<and> call (Heun_get_np_step unit_profile growth_eq) 0 1 0 [] = Inr (Num (Fin 2))
   \<and> Heun_spec_step (get_dt unit_profile) growth_drift unit_noise 0 1 0 [] = 5 / 2"
  by (simp add: call_def Heun_get_np_step_def is_stochastic_def Heun_spec_step_def
      gbm_eq_def drifting_eq_def growth_eq_def quad_profile_def unit_profile_def
      growth_drift_def unit_drift_def linear_noise_def unit_noise_def Let_def)

section \<open>Milstein\<close>

lemma quotient_by_root:
  "0 < s \<Longrightarrow> ((s * xi)\<^sup>2 - s * s) / s = xi * xi * s - (s::real)"
  by (simp add: field_simps power2_eq_square)

lemma Ito_correction:
  assumes pos: "0 < dt"
  shows "0.5 * c * (xi * xi * sqrt dt - sqrt dt)
           = 1 / 2 * c * ((sqrt dt * xi)\<^sup>2 - dt) / sqrt dt"
proof -
  have root: "0 < sqrt dt" and sq: "sqrt dt * sqrt dt = dt"
    using pos by simp_all
  have "((sqrt dt * xi)\<^sup>2 - dt) / sqrt dt = xi * xi * sqrt dt - sqrt dt"
    using quotient_by_root [OF root, of xi] by (simp only: sq)
  then have "1 / 2 * c * (((sqrt dt * xi)\<^sup>2 - dt) / sqrt dt)
               = 0.5 * c * (xi * xi * sqrt dt - sqrt dt)"
    by simp
  then show ?thesis by simp
qed

lemma Stratonovich_correction:
  assumes pos: "0 < dt"
  shows "0.5 * c * (xi * xi * sqrt dt) = 1 / 2 * c * (sqrt dt * xi)\<^sup>2 / sqrt dt"
proof -
  have "0 < sqrt dt" using pos by simp
  then have "(sqrt dt * xi)\<^sup>2 / sqrt dt = xi * xi * sqrt dt"
    by (simp add: field_simps power2_eq_square)
  then have "1 / 2 * c * ((sqrt dt * xi)\<^sup>2 / sqrt dt) = 0.5 * c * (xi * xi * sqrt dt)"
    by simp
  then show ?thesis by simp
qed

text \<open>The three steps as the source computes them.\<close>

lemma Euler_functional_noise_raw:
  "g eq = Callable gg \<Longrightarrow> drift_returns eq (f eq y0 t args) d aux \<Longrightarrow>
   call (Euler_get_np_step cfg eq) xi y0 t args =
     Inr (state_with eq
       (Fin (y0 + d * get_dt cfg + sqrt (get_dt cfg) * gg y0 t args * xi)) aux)"
  by (simp add: call_def Euler_get_np_step_def is_stochastic_def drift_returns_def
      state_with_def Let_def split: if_splits)

lemma MilsteinIto_raw:
  "g eq = Callable gg \<Longrightarrow> drift_returns eq (f eq y0 t args) d aux \<Longrightarrow>
   call (MilsteinIto_get_np_step cfg eq) xi y0 t args =
     Inr (state_with eq
       (Fin (y0 + d * get_dt cfg + gg y0 t args * xi * sqrt (get_dt cfg)
             + 0.5 * (gg (y0 + d * get_dt cfg + gg y0 t args * sqrt (get_dt cfg)) t args
                      - gg y0 t args)
               * (xi * xi * sqrt (get_dt cfg) - sqrt (get_dt cfg)))) aux)"
  by (simp add: call_def MilsteinIto_get_np_step_def is_stochastic_def drift_returns_def
      state_with_def Let_def split: if_splits)

lemma MilsteinStra_raw:
  "g eq = Callable gg \<Longrightarrow> drift_returns eq (f eq y0 t args) d aux \<Longrightarrow>
   call (MilsteinStra_get_np_step cfg eq) xi y0 t args =
     Inr (state_with eq
       (Fin (y0 + d * get_dt cfg + gg y0 t args * xi * sqrt (get_dt cfg)
             + 0.5 * (gg (y0 + d * get_dt cfg + gg y0 t args * sqrt (get_dt cfg)) t args
                      - gg y0 t args)
               * (xi * xi * sqrt (get_dt cfg)))) aux)"
  by (simp add: call_def MilsteinStra_get_np_step_def is_stochastic_def drift_returns_def
      state_with_def Let_def split: if_splits)

text \<open>
  C2. For a stochastic equation with callable diffusion and a positive step size, both
  Milstein steps use the predictor \<open>y_hat = y0 + f(y0) * dt + g(y0) * sqrt dt\<close>, which
  has no noise in it. With \<open>dW = sqrt dt * xi\<close> and \<open>em\<close> the Euler-Maruyama update,
  MilsteinIto returns \<open>em + (g(y_hat) - g(y0)) / 2 * (dW\<^sup>2 - dt) / sqrt dt\<close> and
  MilsteinStra returns \<open>em + (g(y_hat) - g(y0)) / 2 * dW\<^sup>2 / sqrt dt\<close>.
\<close>

theorem Milstein_steps:
  assumes pos: "0 < get_dt cfg"
    and gc: "g eq = Callable gg"
    and dr: "drift_returns eq (f eq y0 t args) d aux"
  shows
  "(let dt = get_dt cfg; dW = sqrt dt * xi; gn = gg y0 t args;
        y_hat = y0 + d * dt + gn * sqrt dt;
        em = y0 + d * dt + gn * dW in
    call (Euler_get_np_step cfg eq) xi y0 t args = Inr (state_with eq (Fin em) aux)
    \<and> call (MilsteinIto_get_np_step cfg eq) xi y0 t args =
        Inr (state_with eq
              (Fin (em + 1 / 2 * (gg y_hat t args - gn) * (dW\<^sup>2 - dt) / sqrt dt)) aux)
    \<and> call (MilsteinStra_get_np_step cfg eq) xi y0 t args =
        Inr (state_with eq
              (Fin (em + 1 / 2 * (gg y_hat t args - gn) * dW\<^sup>2 / sqrt dt)) aux))"
proof -
  have e: "call (Euler_get_np_step cfg eq) xi y0 t args =
      Inr (state_with eq
        (Fin (y0 + d * get_dt cfg + gg y0 t args * (sqrt (get_dt cfg) * xi))) aux)"
    by (simp add: Euler_functional_noise_raw [OF gc dr] ac_simps)
  have i: "call (MilsteinIto_get_np_step cfg eq) xi y0 t args =
      Inr (state_with eq (Fin (y0 + d * get_dt cfg + gg y0 t args * (sqrt (get_dt cfg) * xi)
        + 1 / 2 * (gg (y0 + d * get_dt cfg + gg y0 t args * sqrt (get_dt cfg)) t args
                   - gg y0 t args)
          * ((sqrt (get_dt cfg) * xi)\<^sup>2 - get_dt cfg) / sqrt (get_dt cfg))) aux)"
    unfolding MilsteinIto_raw [OF gc dr] Ito_correction [OF pos]
    by (simp add: ac_simps)
  have s: "call (MilsteinStra_get_np_step cfg eq) xi y0 t args =
      Inr (state_with eq (Fin (y0 + d * get_dt cfg + gg y0 t args * (sqrt (get_dt cfg) * xi)
        + 1 / 2 * (gg (y0 + d * get_dt cfg + gg y0 t args * sqrt (get_dt cfg)) t args
                   - gg y0 t args)
          * (sqrt (get_dt cfg) * xi)\<^sup>2 / sqrt (get_dt cfg))) aux)"
    unfolding MilsteinStra_raw [OF gc dr] Stratonovich_correction [OF pos]
    by (simp add: ac_simps)
  show ?thesis
    unfolding Let_def using e i s by blast
qed

theorem Milstein_steps_witness:
  "0 < get_dt quad_profile
   \<and> g gbm_eq = Callable linear_noise
   \<and> drift_returns gbm_eq (f gbm_eq 1 0 []) 1 []
   \<and> call (Euler_get_np_step quad_profile gbm_eq) 2 1 0 [] = Inr (Num (Fin 9))
   \<and> call (MilsteinIto_get_np_step quad_profile gbm_eq) 2 1 0 [] = Inr (Num (Fin 27))
   \<and> call (MilsteinStra_get_np_step quad_profile gbm_eq) 2 1 0 [] = Inr (Num (Fin 33))"
proof -
  have pos: "0 < get_dt quad_profile"
    and gc: "g gbm_eq = Callable linear_noise"
    and dr: "drift_returns gbm_eq (f gbm_eq 1 0 []) 1 []"
    by (simp_all add: quad_profile_def gbm_eq_def drift_returns_def growth_drift_def)
  have four: "get_dt quad_profile = 4"
    by (simp add: quad_profile_def)
  show ?thesis
    using pos gc dr Milstein_steps [OF pos gc dr, of 2]
    by (simp add: Let_def four state_with_def linear_noise_def gbm_eq_def)
qed

section \<open>ExponentialEuler\<close>

text \<open>
  C6. For a multi-return equation the exponential Euler step for callable noise
  returns the new state followed by the outputs after the linear coefficient. The
  step for constant noise returns \<^verbatim>\<open>(y1,) + tuple(val[1:])\<close>: the linear coefficient
  stays in the returned tuple, between the new state and the further outputs.
\<close>

theorem ExponentialEuler_multi_return_tuple:
  "f eq y0 t args = FTup (dydt # linear_part # aux) \<Longrightarrow> is_multi_return eq \<Longrightarrow>
   (g eq = Constant gc \<longrightarrow>
      call (ExponentialEuler_get_np_step cfg eq) xi y0 t args =
        Inr (cons_state (exp_euler_update (get_dt cfg) y0 dydt linear_part
                           (sqrt (get_dt cfg) * gc * xi)) (linear_part # aux)))
   \<and> (g eq = Callable gg \<longrightarrow>
      call (ExponentialEuler_get_np_step cfg eq) xi y0 t args =
        Inr (cons_state (exp_euler_update (get_dt cfg) y0 dydt linear_part
                           (sqrt (get_dt cfg) * gg y0 t args * xi)) aux))"
  by (simp add: call_def ExponentialEuler_get_np_step_def is_stochastic_def Let_def)

theorem ExponentialEuler_multi_return_tuple_witness:
  "f leaky_const_eq 1 3 [] = FTup [- 1, - 1, 3] \<and> is_multi_return leaky_const_eq
   \<and> g leaky_const_eq = Constant 1
   \<and> call (ExponentialEuler_get_np_step unit_profile leaky_const_eq) 0 1 3 []
       = Inr (Tup [Fin (exp (- 1)), Fin (- 1), Fin 3])
   \<and> f leaky_fun_eq 1 3 [] = FTup [- 1, - 1, 3] \<and> is_multi_return leaky_fun_eq
   \<and> g leaky_fun_eq = Callable unit_noise
   \<and> call (ExponentialEuler_get_np_step unit_profile leaky_fun_eq) 0 1 3 []
       = Inr (Tup [Fin (exp (- 1)), Fin 3])"
proof -
  have c1: "f leaky_const_eq 1 3 [] = FTup [- 1, - 1, 3]" "is_multi_return leaky_const_eq"
    "g leaky_const_eq = Constant 1"
    by (simp_all add: leaky_const_eq_def leaky_drift_def)
  have c2: "f leaky_fun_eq 1 3 [] = FTup [- 1, - 1, 3]" "is_multi_return leaky_fun_eq"
    "g leaky_fun_eq = Callable unit_noise"
    by (simp_all add: leaky_fun_eq_def leaky_drift_def)
  have u: "exp_euler_update 1 1 (- 1) (- 1) 0 = Fin (exp (- 1))"
    by (simp add: exp_euler_update_def np_div_def)
  show ?thesis
    using c1 c2
      ExponentialEuler_multi_return_tuple [OF c1(1) c1(2),
        where gc = 1 and gg = unit_noise and cfg = unit_profile and xi = 0]
      ExponentialEuler_multi_return_tuple [OF c2(1) c2(2),
        where gc = 1 and gg = unit_noise and cfg = unit_profile and xi = 0]
    by (simp add: u unit_profile_def cons_state_def)
qed

text \<open>
  C10. For a deterministic equation whose drift returns the linear coefficient zero at
  an input, the exponential Euler step divides \<open>exp (0 * dt) - 1\<close> by zero without a
  guard; the step returns a value, not an error, and its new state is not finite.
\<close>

theorem ExponentialEuler_zero_linear_part:
  "\<not> is_stochastic eq \<Longrightarrow> f eq y0 t args = FTup (df # 0 # aux) \<Longrightarrow>
   (\<not> is_multi_return eq \<longrightarrow> aux = []) \<Longrightarrow>
   call (ExponentialEuler_get_np_step cfg eq) xi y0 t args = Inr (state_with eq NonFinite aux)"
  by (simp add: call_def ExponentialEuler_get_np_step_def state_with_def np_div_def Let_def)

theorem ExponentialEuler_zero_linear_part_witness:
  "\<not> is_stochastic flat_eq \<and> f flat_eq 1 0 [] = FTup [1, 0]
   \<and> call (ExponentialEuler_get_np_step unit_profile flat_eq) 0 1 0 [] = Inr (Num NonFinite)"
proof -
  have h: "\<not> is_stochastic flat_eq" "f flat_eq 1 0 [] = FTup [1, 0]"
    "\<not> is_multi_return flat_eq \<longrightarrow> [] = ([] :: real list)"
    by (simp_all add: flat_eq_def is_stochastic_def)
  show ?thesis
    using h ExponentialEuler_zero_linear_part [OF h, of unit_profile 0]
    by (simp add: state_with_def flat_eq_def)
qed

section \<open>The registry\<close>

text \<open>
  C5. \<^verbatim>\<open>get_integrator\<close> gives the same result on a name and on its lower-case
  form; \<^verbatim>\<open>milstein\<close> and \<^verbatim>\<open>milstein_ito\<close> both give MilsteinIto; a name whose
  lower-case form is none of the method names raises \<^verbatim>\<open>ValueError\<close> with the message
  \<^verbatim>\<open>Unknown method: \<close> followed by the lower-case form of the name and a full stop;
  every other name gives a scheme.
\<close>

theorem get_integrator_lookup:
  "get_integrator name = get_integrator (lower name)
   \<and> get_integrator ''milstein'' = Inr MilsteinIto
   \<and> get_integrator ''milstein_ito'' = Inr MilsteinIto
   \<and> (lower name \<notin> set method_names \<longrightarrow>
        get_integrator name = Inl (ValueError (''Unknown method: '' @ lower name @ ''.'')))
   \<and> (lower name \<in> set method_names \<longrightarrow> (\<exists>s. get_integrator name = Inr s))"
proof -
  have same: "get_integrator name = get_integrator (lower name)"
    by (simp add: get_integrator_def lower_idem)
  have synonyms: "get_integrator ''milstein'' = Inr MilsteinIto"
    "get_integrator ''milstein_ito'' = Inr MilsteinIto"
    by code_simp+
  have unknown: "lower name \<notin> set method_names \<longrightarrow>
        get_integrator name = Inl (ValueError (''Unknown method: '' @ lower name @ ''.''))"
    by (simp add: get_integrator_def method_names_def Let_def)
  have known: "lower name \<in> set method_names \<longrightarrow> (\<exists>s. get_integrator name = Inr s)"
    by (auto simp add: get_integrator_def method_names_def Let_def)
  show ?thesis
    using same synonyms unknown known by blast
qed

theorem get_integrator_lookup_witness:
  "lower ''Not_A_Method'' \<notin> set method_names
   \<and> get_integrator ''Not_A_Method'' = Inl (ValueError ''Unknown method: not_a_method.'')
   \<and> lower ''RK4'' \<in> set method_names
   \<and> get_integrator ''RK4'' = get_integrator ''rk4''
   \<and> (\<exists>s. get_integrator ''RK4'' = Inr s)"
proof -
  have l1: "lower ''Not_A_Method'' = ''not_a_method''" and l2: "lower ''RK4'' = ''rk4''"
    by code_simp+
  have out: "lower ''Not_A_Method'' \<notin> set method_names"
    and inside: "lower ''RK4'' \<in> set method_names"
    unfolding l1 l2 by (simp_all add: method_names_def)
  have raised: "get_integrator ''Not_A_Method''
      = Inl (ValueError (''Unknown method: '' @ lower ''Not_A_Method'' @ ''.''))"
    using out get_integrator_lookup [of "''Not_A_Method''"] by blast
  have found: "get_integrator ''RK4'' = get_integrator (lower ''RK4'')"
    "\<exists>s. get_integrator ''RK4'' = Inr s"
    using inside get_integrator_lookup [of "''RK4''"] by blast+
  have message: "''Unknown method: '' @ lower ''Not_A_Method'' @ ''.''
      = ''Unknown method: not_a_method.''"
    unfolding l1 by simp
  show ?thesis
    using out inside raised found unfolding message l2 by blast
qed

text \<open>
  The message does not contain the name as the caller wrote it: for
  \<^verbatim>\<open>Not_A_Method\<close>, which is none of the method names, the message is
  \<^verbatim>\<open>Unknown method: not_a_method.\<close>.
\<close>

theorem get_integrator_message_counterexample:
  "''Not_A_Method'' \<notin> set method_names
   \<and> get_integrator ''Not_A_Method'' = Inl (ValueError ''Unknown method: not_a_method.'')
   \<and> \<not> contains ''Not_A_Method'' ''Unknown method: not_a_method.''"
  by code_simp

end
